theory Spec2Isabelle
  imports Complex_Main
begin

section \<open>Data model of App.tsx\<close>

text \<open>
  The application is one React component, \<^verbatim>\<open>App\<close>, with seven state variables, one
  reference to the map view and three collaborators: the permission service and the
  position service of \<^verbatim>\<open>expo-location\<close>, and the map view of \<^verbatim>\<open>react-native-maps\<close>.

  Conventions of the embedding:
  \<^item> a JavaScript \<^verbatim>\<open>number\<close> is a \<^typ>\<open>real\<close>, and the two arithmetic operations of the
    program, the \<^verbatim>\<open>+ 1\<close> and \<^verbatim>\<open>- 1\<close> on the zoom, round their exact result to the nearest
    double, ties to even, as IEEE 754 prescribes; NaN and the infinities are outside the
    model;
  \<^item> \<^verbatim>\<open>null\<close> and \<^verbatim>\<open>undefined\<close> are \<^term>\<open>None\<close>;
  \<^item> a rejected promise carries a \<^verbatim>\<open>js_error\<close>, kept opaque as a string;
  \<^item> every call to a collaborator is appended to the log \<open>effects\<close>, in program order;
  \<^item> an \<^verbatim>\<open>async\<close> function is cut at its \<^verbatim>\<open>await\<close>: the part before it and the part
    that runs when the promise settles are two functions, and the promises still
    awaiting settlement are counted in the state.
\<close>

type_synonym js_error = string

record LatLng =
  latitude :: real
  longitude :: real

record Region = LatLng +
  latitudeDelta :: real
  longitudeDelta :: real

record LocationObjectCoords = LatLng +
  altitude :: "real option"
  accuracy :: "real option"
  altitudeAccuracy :: "real option"
  heading :: "real option"
  speed :: "real option"

record LocationObject =
  coords :: LocationObjectCoords
  timestamp :: real

text \<open>
  The camera of \<^verbatim>\<open>react-native-maps\<close>. Its \<^verbatim>\<open>heading\<close> and \<^verbatim>\<open>altitude\<close> fields are
  prefixed, since the coordinates of a location have fields of the same names.
\<close>

record Camera =
  center :: LatLng
  camera_heading :: real
  pitch :: real
  zoom :: "real option"
  camera_altitude :: "real option"

datatype MapType = Standard | Satellite

datatype PermissionStatus = Granted | Denied | Undetermined

datatype effect =
    RequestForegroundPermissionsAsync
  | GetCurrentPositionAsync
  | AlertPermissionRequired
  | AlertLocationDetails LocationObjectCoords
  | GetCamera
  | AnimateToRegion Region nat
  | AnimateCamera Camera nat
  | ConsoleError string js_error

text \<open>
  The state: the seven \<^verbatim>\<open>useState\<close> variables under their source names, whether
  \<^verbatim>\<open>mapRef.current\<close> is set, the log of collaborator calls, and the promises of the
  start-up permission request and of the position service that have not settled yet.
\<close>

record World =
  location :: "LocationObject option"
  region :: Region
  loading :: bool
  errorMsg :: "string option"
  permissionGranted :: bool
  mapType :: MapType
  showDetails :: bool
  mapRef :: bool
  effects :: "effect list"
  pendingPermission :: nat
  pendingPosition :: nat

section \<open>Constants\<close>

definition CONSTANTA_COORDINATES :: LatLng where
  "CONSTANTA_COORDINATES = \<lparr>latitude = 44.159801, longitude = 28.634800\<rparr>"

definition CONSTANTA_REGION :: Region where
  "CONSTANTA_REGION =
     \<lparr>latitude = latitude CONSTANTA_COORDINATES,
      longitude = longitude CONSTANTA_COORDINATES,
      latitudeDelta = 0.0922,
      longitudeDelta = 0.0421\<rparr>"

text \<open>The values the \<^verbatim>\<open>useState\<close> calls start from; the map view is attached.\<close>

definition initial :: World where
  "initial =
     \<lparr>location = None, region = CONSTANTA_REGION, loading = False, errorMsg = None,
      permissionGranted = False, mapType = Standard, showDetails = False,
      mapRef = True, effects = [], pendingPermission = 0, pendingPosition = 0\<rparr>"

section \<open>The permission request on load\<close>

text \<open>The effect of \<^verbatim>\<open>useEffect\<close> up to its \<^verbatim>\<open>await\<close>.\<close>

definition useEffect_begin :: "World \<Rightarrow> World" where
  "useEffect_begin s =
     s\<lparr>loading := True,
       effects := effects s @ [RequestForegroundPermissionsAsync],
       pendingPermission := Suc (pendingPermission s)\<rparr>"

text \<open>The rest of the effect, once the permission request has settled.\<close>

definition useEffect_resume :: "js_error + PermissionStatus \<Rightarrow> World \<Rightarrow> World" where
  "useEffect_resume r s =
     (case r of
        Inr status \<Rightarrow>
          (if status \<noteq> Granted
           then s\<lparr>errorMsg := Some ''Location permission was denied!'',
                  permissionGranted := False, loading := False\<rparr>
           else s\<lparr>permissionGranted := True, errorMsg := None, loading := False\<rparr>)
      | Inl error \<Rightarrow>
          s\<lparr>errorMsg := Some ''Error getting permission!'',
            effects := effects s @ [ConsoleError [] error],
            loading := False\<rparr>)"

section \<open>getCurrentPosition\<close>

text \<open>
  Up to the \<^verbatim>\<open>await\<close>: without permission an alert and an early return; with it the
  loading flag, the cleared message and the call of the position service.
\<close>

definition getCurrentPosition_begin :: "World \<Rightarrow> World" where
  "getCurrentPosition_begin s =
     (if \<not> permissionGranted s
      then s\<lparr>effects := effects s @ [AlertPermissionRequired]\<rparr>
      else s\<lparr>loading := True, errorMsg := None,
             effects := effects s @ [GetCurrentPositionAsync],
             pendingPosition := Suc (pendingPosition s)\<rparr>)"

text \<open>The \<^verbatim>\<open>try\<close> body after the \<^verbatim>\<open>await\<close>, the \<^verbatim>\<open>catch\<close> and the \<^verbatim>\<open>finally\<close>.\<close>

definition getCurrentPosition_resume :: "js_error + LocationObject \<Rightarrow> World \<Rightarrow> World" where
  "getCurrentPosition_resume r s =
     (case r of
        Inr currentLocation \<Rightarrow>
          (let newRegion =
                 \<lparr>latitude = latitude (coords currentLocation),
                  longitude = longitude (coords currentLocation),
                  latitudeDelta = 0.01,
                  longitudeDelta = 0.01\<rparr>
           in s\<lparr>location := Some currentLocation,
                 region := newRegion,
                 effects := effects s @
                   (if mapRef s then [AnimateToRegion newRegion 1000] else []),
                 loading := False\<rparr>)
      | Inl error \<Rightarrow>
          s\<lparr>effects := effects s @ [ConsoleError ''Error getting location:'' error],
            errorMsg := Some ''Could not get current location. Make sure GPS is enabled!'',
            loading := False\<rparr>)"

text \<open>
  One whole run of the function, from the call to the settlement \<open>r\<close> of the position
  service, with nothing else happening in between.
\<close>

definition getCurrentPosition :: "js_error + LocationObject \<Rightarrow> World \<Rightarrow> World" where
  "getCurrentPosition r s =
     (if \<not> permissionGranted s then getCurrentPosition_begin s
      else (let s1 = getCurrentPosition_begin s
            in getCurrentPosition_resume r (s1\<lparr>pendingPosition := pendingPosition s1 - 1\<rparr>)))"

text \<open>How often the position service has been called.\<close>

definition positionCalls :: "World \<Rightarrow> nat" where
  "positionCalls s = count_list (effects s) GetCurrentPositionAsync"

section \<open>Zoom\<close>

text \<open>
  \<^verbatim>\<open>camera.zoom || 10\<close>: the right operand replaces a left operand that is falsy, which
  for an optional number is \<^verbatim>\<open>undefined\<close> or zero.
\<close>

definition js_or :: "real option \<Rightarrow> real \<Rightarrow> real" where
  "js_or x d = (case x of None \<Rightarrow> d | Some v \<Rightarrow> if v = 0 then d else v)"

text \<open>
  Arithmetic on doubles. A double is a whole multiple, of magnitude below \<^verbatim>\<open>2^53\<close>, of a
  power of two; the power is 52 places below the leading bit of the number, and never
  below \<^verbatim>\<open>2^-1074\<close>. \<open>pow2 e\<close> is the power of two of exponent \<open>e\<close>.
\<close>

definition pow2 :: "int \<Rightarrow> real" where
  "pow2 e = (if 0 \<le> e then 2 ^ nat e else 1 / 2 ^ nat (- e))"

text \<open>The nearest whole number, the even one of the two when they are equally near.\<close>

definition round_half_even :: "real \<Rightarrow> int" where
  "round_half_even y =
     (let f = \<lfloor>y\<rfloor>
      in if y - of_int f < 1 / 2 then f
         else if 1 / 2 < y - of_int f then f + 1
         else if even f then f else f + 1)"

text \<open>
  The double nearest to a real number, ties to even: the number is scaled by the unit in
  the last place of its binade, rounded to a whole number and scaled back.
\<close>

definition round_double :: "real \<Rightarrow> real" where
  "round_double x =
     (if x = 0 then 0
      else (let e = max (\<lfloor>log 2 \<bar>x\<bar>\<rfloor> - 52) (- 1074)
            in of_int (round_half_even (x / pow2 e)) * pow2 e))"

text \<open>The reals that are doubles: rounding leaves them as they are.\<close>

definition is_double :: "real \<Rightarrow> bool" where
  "is_double x \<longleftrightarrow> round_double x = x"

text \<open>The operators \<^verbatim>\<open>+\<close> and \<^verbatim>\<open>-\<close> of JavaScript on numbers.\<close>

definition js_add :: "real \<Rightarrow> real \<Rightarrow> real" where
  "js_add a b = round_double (a + b)"

definition js_sub :: "real \<Rightarrow> real \<Rightarrow> real" where
  "js_sub a b = round_double (a - b)"

text \<open>The \<^verbatim>\<open>newCamera\<close> of \<^verbatim>\<open>zoomIn\<close>: the camera read, with its zoom replaced.\<close>

definition zoomIn_newCamera :: "Camera \<Rightarrow> Camera" where
  "zoomIn_newCamera camera = camera\<lparr>zoom := Some (js_add (js_or (zoom camera) 10) 1)\<rparr>"

text \<open>The \<^verbatim>\<open>newCamera\<close> of \<^verbatim>\<open>zoomOut\<close>.\<close>

definition zoomOut_newCamera :: "Camera \<Rightarrow> Camera" where
  "zoomOut_newCamera camera =
     (let newZoom = js_sub (js_or (zoom camera) 10) 1
      in camera\<lparr>zoom := Some (if newZoom > 0 then newZoom else 1)\<rparr>)"

text \<open>
  \<^verbatim>\<open>zoomIn\<close> and \<^verbatim>\<open>zoomOut\<close>, with the settlement \<open>r\<close> of \<^verbatim>\<open>getCamera\<close>. The reference to
  the map view is read when the button is pressed and again when the camera arrives; the
  model takes both reads in one step.
\<close>

definition zoomIn :: "js_error + Camera \<Rightarrow> World \<Rightarrow> World" where
  "zoomIn r s =
     (if mapRef s
      then (case r of
              Inr camera \<Rightarrow>
                s\<lparr>effects := effects s @ [GetCamera, AnimateCamera (zoomIn_newCamera camera) 300]\<rparr>
            | Inl error \<Rightarrow>
                s\<lparr>effects := effects s @ [GetCamera, ConsoleError ''Zoom in error:'' error]\<rparr>)
      else s)"

definition zoomOut :: "js_error + Camera \<Rightarrow> World \<Rightarrow> World" where
  "zoomOut r s =
     (if mapRef s
      then (case r of
              Inr camera \<Rightarrow>
                s\<lparr>effects := effects s @ [GetCamera, AnimateCamera (zoomOut_newCamera camera) 300]\<rparr>
            | Inl error \<Rightarrow>
                s\<lparr>effects := effects s @ [GetCamera, ConsoleError ''Zoom out error:'' error]\<rparr>)
      else s)"

section \<open>Details, reset, map type, re-centring\<close>

text \<open>
  \<^verbatim>\<open>showLocationDetails\<close>. The alert's text is built from the coordinates of the stored
  location; the log keeps the coordinates, not the text.
\<close>

definition showLocationDetails :: "World \<Rightarrow> World" where
  "showLocationDetails s =
     (case location s of
        None \<Rightarrow> s
      | Some l \<Rightarrow> s\<lparr>effects := effects s @ [AlertLocationDetails (coords l)]\<rparr>)"

definition resetToConstanta :: "World \<Rightarrow> World" where
  "resetToConstanta s =
     s\<lparr>region := CONSTANTA_REGION,
       location := None,
       showDetails := False,
       effects := effects s @
         (if mapRef s then [AnimateToRegion CONSTANTA_REGION 1000] else [])\<rparr>"

definition toggleMapType :: "World \<Rightarrow> World" where
  "toggleMapType s =
     s\<lparr>mapType := (if mapType s = Standard then Satellite else Standard)\<rparr>"

definition centerOnUser :: "World \<Rightarrow> World" where
  "centerOnUser s =
     (case location s of
        Some l \<Rightarrow>
          (if mapRef s
           then s\<lparr>effects := effects s @
                    [AnimateToRegion
                       \<lparr>latitude = latitude (coords l), longitude = longitude (coords l),
                        latitudeDelta = 0.01, longitudeDelta = 0.01\<rparr> 1000]\<rparr>
           else s)
      | None \<Rightarrow> s)"

section \<open>The screen as a transition system\<close>

text \<open>
  What can happen to the mounted screen: a promise of a collaborator settles, or the
  user presses a control. The handlers of the controls are the functions above and three
  inline ones (the marker of the user's position sets \<^verbatim>\<open>showDetails\<close>, the close button of
  the panel clears it, the "Settings" button of the alert requests the permission again
  and drops the answer).
\<close>

datatype event =
    PermissionSettled "js_error + PermissionStatus"
  | PositionSettled "js_error + LocationObject"
  | PressGetPosition
  | PressZoomIn "js_error + Camera"
  | PressZoomOut "js_error + Camera"
  | PressCenterOnUser
  | PressToggleMapType
  | PressMarker
  | PressDetails
  | PressReset
  | PressCloseDetails
  | PressAlertSettings

text \<open>
  One event. The conditions are those of the render function: the main button is
  \<^verbatim>\<open>disabled={loading}\<close>, the re-centre button is \<^verbatim>\<open>disabled={!location}\<close>, the marker, the
  "Details" and the "Reset" buttons are rendered under \<^verbatim>\<open>location &&\<close>, the panel with its
  close button under \<^verbatim>\<open>showDetails && location &&\<close>. A promise settles only while it is
  pending.
\<close>

fun step :: "event \<Rightarrow> World \<Rightarrow> World" where
  "step (PermissionSettled r) s =
     (if pendingPermission s = 0 then s
      else useEffect_resume r (s\<lparr>pendingPermission := pendingPermission s - 1\<rparr>))"
| "step (PositionSettled r) s =
     (if pendingPosition s = 0 then s
      else getCurrentPosition_resume r (s\<lparr>pendingPosition := pendingPosition s - 1\<rparr>))"
| "step PressGetPosition s = (if loading s then s else getCurrentPosition_begin s)"
| "step (PressZoomIn r) s = zoomIn r s"
| "step (PressZoomOut r) s = zoomOut r s"
| "step PressCenterOnUser s = (if location s = None then s else centerOnUser s)"
| "step PressToggleMapType s = toggleMapType s"
| "step PressMarker s = (if location s = None then s else s\<lparr>showDetails := True\<rparr>)"
| "step PressDetails s = (if location s = None then s else showLocationDetails s)"
| "step PressReset s = (if location s = None then s else resetToConstanta s)"
| "step PressCloseDetails s =
     (if showDetails s \<and> location s \<noteq> None then s\<lparr>showDetails := False\<rparr> else s)"
| "step PressAlertSettings s =
     (if AlertPermissionRequired \<in> set (effects s)
      then s\<lparr>effects := effects s @ [RequestForegroundPermissionsAsync]\<rparr> else s)"

text \<open>A sequence of events, oldest first.\<close>

fun run :: "event list \<Rightarrow> World \<Rightarrow> World" where
  "run [] s = s"
| "run (e # es) s = run es (step e s)"

text \<open>The screen once mounted: the effect has started, the permission request is pending.\<close>

definition mounted :: World where
  "mounted = useEffect_begin initial"

text \<open>
  The invariant behind the single acquisition in flight: while the permission request is
  pending no acquisition is, at most one acquisition is pending, and a pending
  acquisition has \<^verbatim>\<open>loading\<close> set and no message.
\<close>

definition in_flight_inv :: "World \<Rightarrow> bool" where
  "in_flight_inv s \<longleftrightarrow>
     pendingPermission s \<le> 1
     \<and> (pendingPermission s = 1 \<longrightarrow> loading s \<and> pendingPosition s = 0)
     \<and> pendingPosition s \<le> 1
     \<and> (pendingPosition s = 1 \<longrightarrow> loading s \<and> errorMsg s = None)"

text \<open>The details panel is rendered under \<^verbatim>\<open>showDetails && location &&\<close>.\<close>

definition detailsPanelVisible :: "World \<Rightarrow> bool" where
  "detailsPanelVisible s \<longleftrightarrow> showDetails s \<and> location s \<noteq> None"

section \<open>Sample values\<close>

text \<open>A fix near Constanta, a camera at a fractional zoom, and some runs of the screen.\<close>

definition sample_location :: LocationObject where
  "sample_location =
     \<lparr>coords = \<lparr>latitude = 44.18, longitude = 28.65, altitude = None, accuracy = Some 5,
                altitudeAccuracy = None, heading = None, speed = None\<rparr>,
      timestamp = 1700000000000\<rparr>"

definition sample_camera :: "real option \<Rightarrow> Camera" where
  "sample_camera z =
     \<lparr>center = CONSTANTA_COORDINATES, camera_heading = 0, pitch = 0, zoom = z,
      camera_altitude = None\<rparr>"

text \<open>
  The double that the literal \<^verbatim>\<open>15.1\<close> denotes, \<^verbatim>\<open>0x1.e333333333333p+3\<close>: a zoom as a pinch
  on the map leaves it.
\<close>

definition zoom_15_1 :: real where
  "zoom_15_1 = 8500544296661811 / 2 ^ 49"

text \<open>The double \<^verbatim>\<open>0x1.019999999999ap+4\<close>, written 16.1.\<close>

definition zoom_16_1 :: real where
  "zoom_16_1 = 4531747125041562 / 2 ^ 48"

text \<open>The double \<^verbatim>\<open>0x1.e333333333334p+3\<close>, the next one above the double 15.1.\<close>

definition zoom_15_1_above :: real where
  "zoom_15_1_above = 8500544296661812 / 2 ^ 49"

text \<open>Permission granted on load.\<close>

definition granted_run :: "event list" where
  "granted_run = [PermissionSettled (Inr Granted)]"

text \<open>Then a first acquisition that succeeds and a second one that is still pending.\<close>

definition pending_run :: "event list" where
  "pending_run = granted_run @
     [PressGetPosition, PositionSettled (Inr sample_location), PressGetPosition]"

text \<open>The second acquisition fails.\<close>

definition failed_run :: "event list" where
  "failed_run = pending_run @ [PositionSettled (Inl ''timeout'')]"

section \<open>Evaluation of the sample runs\<close>

lemmas handler_defs =
  useEffect_begin_def useEffect_resume_def getCurrentPosition_begin_def
  getCurrentPosition_resume_def zoomIn_def zoomOut_def showLocationDetails_def
  resetToConstanta_def toggleMapType_def centerOnUser_def

lemma granted_state:
  "run granted_run mounted =
     initial\<lparr>permissionGranted := True, effects := [RequestForegroundPermissionsAsync]\<rparr>"
  by (simp add: granted_run_def mounted_def initial_def handler_defs)

lemma pending_state:
  "run pending_run mounted =
     initial\<lparr>permissionGranted := True, loading := True,
       location := Some sample_location,
       region := \<lparr>latitude = 44.18, longitude = 28.65,
                   latitudeDelta = 0.01, longitudeDelta = 0.01\<rparr>,
       effects := [RequestForegroundPermissionsAsync, GetCurrentPositionAsync,
         AnimateToRegion \<lparr>latitude = 44.18, longitude = 28.65,
                           latitudeDelta = 0.01, longitudeDelta = 0.01\<rparr> 1000,
         GetCurrentPositionAsync],
       pendingPosition := 1\<rparr>"
  by (simp add: pending_run_def granted_run_def mounted_def initial_def handler_defs
        sample_location_def Let_def)

lemma failed_state:
  "run failed_run mounted =
     initial\<lparr>permissionGranted := True,
       location := Some sample_location,
       region := \<lparr>latitude = 44.18, longitude = 28.65,
                   latitudeDelta = 0.01, longitudeDelta = 0.01\<rparr>,
       errorMsg := Some ''Could not get current location. Make sure GPS is enabled!'',
       effects := [RequestForegroundPermissionsAsync, GetCurrentPositionAsync,
         AnimateToRegion \<lparr>latitude = 44.18, longitude = 28.65,
                           latitudeDelta = 0.01, longitudeDelta = 0.01\<rparr> 1000,
         GetCurrentPositionAsync, ConsoleError ''Error getting location:'' ''timeout'']\<rparr>"
  by (simp add: failed_run_def pending_run_def granted_run_def mounted_def initial_def
        handler_defs sample_location_def Let_def)

lemma run_append: "run (es @ fs) s = run fs (run es s)"
  by (induction es arbitrary: s) simp_all

section \<open>Acquisition without permission\<close>

text \<open>
  C1. \<^verbatim>\<open>getCurrentPosition\<close> calls the position service exactly when
  \<^verbatim>\<open>permissionGranted\<close> holds. Without permission it raises the "Permission Required"
  alert and returns: no call of the position service is made or left pending, and the
  state variables, among them \<^verbatim>\<open>loading\<close>, \<^verbatim>\<open>errorMsg\<close> and \<^verbatim>\<open>location\<close>, keep their values.
\<close>

theorem getCurrentPosition_permission_gate:
  "positionCalls (getCurrentPosition r s) =
     positionCalls s + (if permissionGranted s then 1 else 0)
   \<and> positionCalls (getCurrentPosition_begin s) =
     positionCalls s + (if permissionGranted s then 1 else 0)
   \<and> (\<not> permissionGranted s \<longrightarrow>
        getCurrentPosition r s = s\<lparr>effects := effects s @ [AlertPermissionRequired]\<rparr>
      \<and> getCurrentPosition_begin s = getCurrentPosition r s
      \<and> loading (getCurrentPosition r s) = loading s
      \<and> errorMsg (getCurrentPosition r s) = errorMsg s
      \<and> location (getCurrentPosition r s) = location s
      \<and> pendingPosition (getCurrentPosition r s) = pendingPosition s)"
  by (cases r)
     (simp_all add: positionCalls_def getCurrentPosition_def getCurrentPosition_begin_def
        getCurrentPosition_resume_def Let_def)

theorem getCurrentPosition_permission_gate_witness:
  "\<not> permissionGranted initial
   \<and> getCurrentPosition (Inl ''timeout'') initial
       = initial\<lparr>effects := effects initial @ [AlertPermissionRequired]\<rparr>
   \<and> positionCalls (getCurrentPosition (Inl ''timeout'') initial) = 0
   \<and> loading (getCurrentPosition (Inl ''timeout'') initial) = False
   \<and> errorMsg (getCurrentPosition (Inl ''timeout'') initial) = None
   \<and> location (getCurrentPosition (Inl ''timeout'') initial) = None"
  using getCurrentPosition_permission_gate [of "Inl ''timeout''" initial]
  by (simp add: initial_def positionCalls_def)

section \<open>One acquisition in flight\<close>

lemma step_in_flight_inv: "in_flight_inv s \<Longrightarrow> in_flight_inv (step e s)"
  by (cases e)
     (auto simp: in_flight_inv_def handler_defs Let_def split: sum.splits option.splits)

lemma run_in_flight_inv: "in_flight_inv s \<Longrightarrow> in_flight_inv (run es s)"
  by (induction es arbitrary: s) (simp_all add: step_in_flight_inv)

lemma mounted_in_flight_inv: "in_flight_inv mounted"
  by (simp add: in_flight_inv_def mounted_def useEffect_begin_def initial_def)

lemma reachable_in_flight_inv: "in_flight_inv (run es mounted)"
  by (rule run_in_flight_inv) (rule mounted_in_flight_inv)

text \<open>
  C2. In every state the mounted screen can reach, at most one call of the position
  service is awaiting its answer. While one is, \<^verbatim>\<open>loading\<close> is set, so the main button is
  disabled and a press on it changes nothing: no second call is made. When the pending
  call then answers with a location, that location is the stored one and no call is left
  that could overwrite it.
\<close>

theorem at_most_one_in_flight:
  "pendingPosition (run es mounted) \<le> 1
   \<and> (pendingPosition (run es mounted) = 1 \<longrightarrow>
        loading (run es mounted)
      \<and> step PressGetPosition (run es mounted) = run es mounted
      \<and> location (step (PositionSettled (Inr l)) (run es mounted)) = Some l
      \<and> pendingPosition (step (PositionSettled (Inr l)) (run es mounted)) = 0)"
proof -
  have "in_flight_inv (run es mounted)"
    by (rule reachable_in_flight_inv)
  then show ?thesis
    by (simp add: in_flight_inv_def getCurrentPosition_resume_def Let_def)
qed

theorem at_most_one_in_flight_witness:
  "pendingPosition (run pending_run mounted) = 1
   \<and> positionCalls (run pending_run mounted) = 2
   \<and> loading (run pending_run mounted)
   \<and> run (pending_run @ [PressGetPosition]) mounted = run pending_run mounted
   \<and> location (step (PositionSettled (Inr sample_location)) (run pending_run mounted))
       = Some sample_location
   \<and> pendingPosition (step (PositionSettled (Inr sample_location)) (run pending_run mounted))
       = 0"
  using at_most_one_in_flight [of pending_run sample_location]
  by (simp add: run_append pending_state positionCalls_def initial_def)

section \<open>Successful and failed acquisition\<close>

text \<open>
  C3. With permission granted and a location returned by the position service,
  \<^verbatim>\<open>getCurrentPosition\<close> stores exactly that location, whatever was stored before, ends
  with \<^verbatim>\<open>loading\<close> cleared and no error message, sets the region to the returned
  coordinate with a span of 0.01 degrees in both axes, and, the map view being attached,
  animates the map to that region over 1000 ms.
\<close>

theorem getCurrentPosition_success:
  "permissionGranted s \<Longrightarrow>
     location (getCurrentPosition (Inr l) s) = Some l
   \<and> region (getCurrentPosition (Inr l) s) =
       \<lparr>latitude = latitude (coords l), longitude = longitude (coords l),
        latitudeDelta = 0.01, longitudeDelta = 0.01\<rparr>
   \<and> loading (getCurrentPosition (Inr l) s) = False
   \<and> errorMsg (getCurrentPosition (Inr l) s) = None
   \<and> pendingPosition (getCurrentPosition (Inr l) s) = pendingPosition s
   \<and> effects (getCurrentPosition (Inr l) s) =
       effects s @ GetCurrentPositionAsync #
         (if mapRef s
          then [AnimateToRegion
                  \<lparr>latitude = latitude (coords l), longitude = longitude (coords l),
                   latitudeDelta = 0.01, longitudeDelta = 0.01\<rparr> 1000]
          else [])"
  by (simp add: getCurrentPosition_def getCurrentPosition_begin_def
        getCurrentPosition_resume_def Let_def)

theorem getCurrentPosition_success_witness:
  "permissionGranted (run granted_run mounted)
   \<and> location (getCurrentPosition (Inr sample_location) (run granted_run mounted))
       = Some sample_location
   \<and> region (getCurrentPosition (Inr sample_location) (run granted_run mounted))
       = \<lparr>latitude = 44.18, longitude = 28.65, latitudeDelta = 0.01, longitudeDelta = 0.01\<rparr>
   \<and> loading (getCurrentPosition (Inr sample_location) (run granted_run mounted)) = False
   \<and> errorMsg (getCurrentPosition (Inr sample_location) (run granted_run mounted)) = None
   \<and> effects (getCurrentPosition (Inr sample_location) (run granted_run mounted))
       = [RequestForegroundPermissionsAsync, GetCurrentPositionAsync,
          AnimateToRegion \<lparr>latitude = 44.18, longitude = 28.65,
                            latitudeDelta = 0.01, longitudeDelta = 0.01\<rparr> 1000]"
proof -
  have h: "permissionGranted (run granted_run mounted)"
    by (simp add: granted_state)
  show ?thesis
    using h getCurrentPosition_success [OF h, of sample_location]
    by (simp add: granted_state initial_def sample_location_def)
qed

text \<open>
  C4. With permission granted and the position service failing (whatever the failure:
  an error of the service, no GPS, a timeout), \<^verbatim>\<open>getCurrentPosition\<close> ends with \<^verbatim>\<open>loading\<close>
  cleared and the message "Could not get current location. Make sure GPS is enabled!";
  the stored location and the region are as before, and the map is not animated: the log
  gains the call of the position service and the console line, nothing else.
\<close>

theorem getCurrentPosition_failure:
  "permissionGranted s \<Longrightarrow>
     errorMsg (getCurrentPosition (Inl e) s) =
       Some ''Could not get current location. Make sure GPS is enabled!''
   \<and> loading (getCurrentPosition (Inl e) s) = False
   \<and> location (getCurrentPosition (Inl e) s) = location s
   \<and> region (getCurrentPosition (Inl e) s) = region s
   \<and> effects (getCurrentPosition (Inl e) s) =
       effects s @ [GetCurrentPositionAsync, ConsoleError ''Error getting location:'' e]"
  by (simp add: getCurrentPosition_def getCurrentPosition_begin_def
        getCurrentPosition_resume_def Let_def)

theorem getCurrentPosition_failure_witness:
  "permissionGranted (run granted_run mounted)
   \<and> errorMsg (getCurrentPosition (Inl ''timeout'') (run granted_run mounted))
       = Some ''Could not get current location. Make sure GPS is enabled!''
   \<and> loading (getCurrentPosition (Inl ''timeout'') (run granted_run mounted)) = False
   \<and> location (getCurrentPosition (Inl ''timeout'') (run granted_run mounted)) = None
   \<and> region (getCurrentPosition (Inl ''timeout'') (run granted_run mounted))
       = CONSTANTA_REGION
   \<and> effects (getCurrentPosition (Inl ''timeout'') (run granted_run mounted))
       = [RequestForegroundPermissionsAsync, GetCurrentPositionAsync,
          ConsoleError ''Error getting location:'' ''timeout'']"
proof -
  have h: "permissionGranted (run granted_run mounted)"
    by (simp add: granted_state)
  show ?thesis
    using h getCurrentPosition_failure [OF h, of "''timeout''"]
    by (simp add: granted_state initial_def)
qed

section \<open>Rounding to doubles\<close>

lemma pow2_powr: "pow2 e = 2 powr (of_int e)"
proof (cases "0 \<le> e")
  case True
  then have "2 powr (of_int e) = (2::real) powr (real (nat e))" by simp
  also have "\<dots> = 2 ^ nat e" by (simp add: powr_realpow)
  finally show ?thesis using True by (simp add: pow2_def)
next
  case False
  then have "(2::real) powr (of_int e) = 2 powr (- real (nat (- e)))" by simp
  also have "\<dots> = 1 / 2 ^ nat (- e)" by (simp add: powr_minus powr_realpow divide_inverse)
  finally show ?thesis using False by (simp add: pow2_def)
qed

lemma pow2_pos: "0 < pow2 e"
  by (simp add: pow2_powr)

lemma pow2_add: "pow2 (a + b) = pow2 a * pow2 b"
  by (simp add: pow2_powr powr_add)

lemma pow2_mono: "a \<le> b \<Longrightarrow> pow2 a \<le> pow2 b"
  by (simp add: pow2_powr)

text \<open>The binade of a number: the power of two at or below it.\<close>

lemma binade_eq:
  assumes "x \<noteq> 0" "pow2 k \<le> \<bar>x\<bar>" "\<bar>x\<bar> < pow2 (k + 1)"
  shows "\<lfloor>log 2 \<bar>x\<bar>\<rfloor> = k"
proof -
  have "0 < \<bar>x\<bar>" using assms(1) by simp
  moreover have "2 powr (of_int k) \<le> \<bar>x\<bar>" using assms(2) by (simp add: pow2_powr)
  moreover have "\<bar>x\<bar> < 2 powr (of_int k + 1)" using assms(3) by (simp add: pow2_powr)
  ultimately show ?thesis
    by (simp add: floor_log_eq_powr_iff)
qed

lemma binade_bounds:
  assumes "x \<noteq> 0"
  shows "pow2 \<lfloor>log 2 \<bar>x\<bar>\<rfloor> \<le> \<bar>x\<bar>" and "\<bar>x\<bar> < pow2 (\<lfloor>log 2 \<bar>x\<bar>\<rfloor> + 1)"
proof -
  have "0 < \<bar>x\<bar>" using assms by simp
  then have "2 powr (of_int \<lfloor>log 2 \<bar>x\<bar>\<rfloor>) \<le> \<bar>x\<bar>
      \<and> \<bar>x\<bar> < 2 powr (of_int \<lfloor>log 2 \<bar>x\<bar>\<rfloor> + 1)"
    using floor_log_eq_powr_iff [of "\<bar>x\<bar>" 2 "\<lfloor>log 2 \<bar>x\<bar>\<rfloor>"] by simp
  then show "pow2 \<lfloor>log 2 \<bar>x\<bar>\<rfloor> \<le> \<bar>x\<bar>" and "\<bar>x\<bar> < pow2 (\<lfloor>log 2 \<bar>x\<bar>\<rfloor> + 1)"
    by (simp_all add: pow2_powr)
qed

text \<open>Rounding a number whose binade is known, away from the subnormal range.\<close>

lemma round_double_binade:
  assumes "x \<noteq> 0" "pow2 k \<le> \<bar>x\<bar>" "\<bar>x\<bar> < pow2 (k + 1)" "- 1022 \<le> k"
  shows "round_double x = of_int (round_half_even (x / pow2 (k - 52))) * pow2 (k - 52)"
proof -
  have "max (k - 52) (- 1074) = k - 52" using assms(4) by simp
  then show ?thesis
    using assms(1) binade_eq [OF assms(1-3)] by (simp add: round_double_def Let_def)
qed

lemma round_half_even_of_int: "round_half_even (of_int n) = n"
  by (simp add: round_half_even_def)

lemma round_half_even_lower: "\<lfloor>y\<rfloor> \<le> round_half_even y"
  by (simp add: round_half_even_def Let_def)

lemma round_half_even_upper: "round_half_even y \<le> \<lfloor>y\<rfloor> + 1"
  by (simp add: round_half_even_def Let_def)

text \<open>Every whole number of magnitude below \<^verbatim>\<open>2^53\<close> is a double.\<close>

lemma round_double_of_int:
  assumes "\<bar>n\<bar> < 2 ^ 53"
  shows "round_double (of_int n) = of_int n"
proof (cases "n = 0")
  case True
  then show ?thesis by (simp add: round_double_def)
next
  case False
  define x :: real where "x = of_int n"
  define k where "k = \<lfloor>log 2 \<bar>x\<bar>\<rfloor>"
  have x0: "x \<noteq> 0" using False by (simp add: x_def)
  have lo: "pow2 k \<le> \<bar>x\<bar>" and hi: "\<bar>x\<bar> < pow2 (k + 1)"
    using binade_bounds [OF x0] by (simp_all add: k_def)
  have "1 \<le> \<bar>x\<bar>" using False by (simp add: x_def)
  then have "pow2 0 < pow2 (k + 1)" using hi by (simp add: pow2_def)
  then have k0: "0 \<le> k" using pow2_mono [of "k + 1" 0] by (cases "0 \<le> k") auto
  have "\<bar>x\<bar> < 2 ^ 53" using assms unfolding x_def
    by (metis of_int_abs of_int_less_numeral_power_cancel_iff)
  then have "pow2 k < pow2 53" using lo by (simp add: pow2_def)
  then have k52: "k \<le> 52" using pow2_mono [of 53 k] by (cases "k \<le> 52") auto
  have sc: "x / pow2 (k - 52) = of_int (n * 2 ^ nat (52 - k))"
    using k52 k0 by (simp add: pow2_def x_def)
  have "round_double x = of_int (round_half_even (x / pow2 (k - 52))) * pow2 (k - 52)"
    using x0 round_double_binade [OF x0 lo hi] k0 by simp
  also have "\<dots> = of_int (n * 2 ^ nat (52 - k)) * pow2 (k - 52)"
    unfolding sc round_half_even_of_int ..
  also have "\<dots> = x" using k52 k0 by (simp add: pow2_def x_def)
  finally show ?thesis by (simp add: x_def)
qed

lemma round_double_numeral:
  "(numeral w :: int) < 2 ^ 53 \<Longrightarrow> round_double (numeral w) = numeral w"
  using round_double_of_int [of "numeral w"] by simp

lemma round_double_0: "round_double 0 = 0"
  by (simp add: round_double_def)

lemma round_double_1: "round_double 1 = 1"
  using round_double_of_int [of 1] by simp

lemma round_double_half: "round_double (1 / 2) = 1 / 2"
  using round_double_binade [of "1 / 2" "- 1"]
  by (simp add: pow2_def round_half_even_def)

text \<open>Rounding does not cross 1 from above, nor 0 from below.\<close>

lemma round_double_ge_1:
  assumes "1 \<le> x"
  shows "1 \<le> round_double x"
proof -
  define k where "k = \<lfloor>log 2 \<bar>x\<bar>\<rfloor>"
  have x0: "x \<noteq> 0" using assms by simp
  have lo: "pow2 k \<le> \<bar>x\<bar>" and hi: "\<bar>x\<bar> < pow2 (k + 1)"
    using binade_bounds [OF x0] by (simp_all add: k_def)
  have "pow2 0 < pow2 (k + 1)" using hi assms by (simp add: pow2_def)
  then have k0: "0 \<le> k" using pow2_mono [of "k + 1" 0] by (cases "0 \<le> k") auto
  have rd: "round_double x = of_int (round_half_even (x / pow2 (k - 52))) * pow2 (k - 52)"
    using x0 round_double_binade [OF x0 lo hi] k0 by simp
  have split: "pow2 k = pow2 52 * pow2 (k - 52)" using pow2_add [of 52 "k - 52"] by simp
  then have "pow2 52 * pow2 (k - 52) \<le> x" using lo assms by simp
  then have "pow2 52 \<le> x / pow2 (k - 52)"
    using pow2_pos [of "k - 52"] by (simp add: pos_le_divide_eq)
  then have "(2::real) ^ 52 \<le> x / pow2 (k - 52)" by (simp add: pow2_def)
  then have "(2::int) ^ 52 \<le> \<lfloor>x / pow2 (k - 52)\<rfloor>"
    by (simp add: le_floor_iff)
  then have "(2::int) ^ 52 \<le> round_half_even (x / pow2 (k - 52))"
    using round_half_even_lower [of "x / pow2 (k - 52)"] by linarith
  then have "(2::real) ^ 52 \<le> of_int (round_half_even (x / pow2 (k - 52)))"
    by (metis of_int_le_iff of_int_numeral of_int_power)
  then have "pow2 52 * pow2 (k - 52) \<le> round_double x"
    unfolding rd using pow2_pos [of "k - 52"] by (simp add: pow2_def)
  moreover have "1 \<le> pow2 k" using pow2_mono [OF k0] by (simp add: pow2_def)
  ultimately show ?thesis using split by linarith
qed

lemma round_double_nonpos:
  assumes "x \<le> 0"
  shows "round_double x \<le> 0"
proof (cases "x = 0")
  case True
  then show ?thesis by (simp add: round_double_def)
next
  case False
  define e where "e = max (\<lfloor>log 2 \<bar>x\<bar>\<rfloor> - 52) (- 1074)"
  have "x / pow2 e < 0" using False assms pow2_pos [of e] by (simp add: divide_neg_pos)
  then have "\<lfloor>x / pow2 e\<rfloor> \<le> - 1" by (simp add: floor_le_iff)
  then have "round_half_even (x / pow2 e) \<le> 0"
    using round_half_even_upper [of "x / pow2 e"] by linarith
  then have "of_int (round_half_even (x / pow2 e)) * pow2 e \<le> 0"
    using pow2_pos [of e] by (simp add: mult_le_0_iff)
  then show ?thesis using False by (simp add: round_double_def Let_def e_def)
qed

text \<open>The three roundings on the way from the double 15.1 up one zoom level and back.\<close>

lemma zoom_15_1_double: "round_double zoom_15_1 = zoom_15_1"
  using round_double_binade [of zoom_15_1 3]
  by (simp add: zoom_15_1_def pow2_def round_half_even_def)

lemma zoom_15_1_up: "js_add zoom_15_1 1 = zoom_16_1"
  using round_double_binade [of "zoom_15_1 + 1" 4]
  by (simp add: js_add_def zoom_15_1_def zoom_16_1_def pow2_def round_half_even_def)

lemma zoom_16_1_down: "js_sub zoom_16_1 1 = zoom_15_1_above"
  using round_double_binade [of "zoom_16_1 - 1" 3]
  by (simp add: js_sub_def zoom_16_1_def zoom_15_1_above_def pow2_def round_half_even_def)

lemmas round_double_simps =
  round_double_numeral round_double_0 round_double_1 round_double_half

section \<open>Zoom\<close>

text \<open>
  C5, as the specification has it: \<^verbatim>\<open>zoomOut\<close> clamps the new zoom to a minimum of 1, so no
  zoom below 1 is ever handed to the map. The code tests \<^verbatim>\<open>newZoom > 0\<close>: read at zoom 1.5,
  the camera is animated to zoom 0.5.
\<close>

theorem zoomOut_below_one_counterexample:
  "zoom (zoomOut_newCamera (sample_camera (Some 1.5))) = Some 0.5
   \<and> (0.5 :: real) < 1
   \<and> effects (zoomOut (Inr (sample_camera (Some 1.5))) (run granted_run mounted)) =
       [RequestForegroundPermissionsAsync, GetCamera,
        AnimateCamera (sample_camera (Some 0.5)) 300]"
  by (simp add: zoomOut_newCamera_def js_or_def js_sub_def round_double_simps
        sample_camera_def zoomOut_def granted_state initial_def)

text \<open>
  C5, amended. \<^verbatim>\<open>zoomOut\<close> takes the zoom read from the camera (10 when it is undefined or
  0), subtracts 1, and animates to the difference when it is positive and to 1 otherwise.
  The zoom handed to the map is therefore always positive, never zero or negative; it is
  at least 1 unless the zoom read lies strictly between 1 and 2; and at zoom 1 the camera
  is left as it is. The subtraction is that of doubles; where the exact difference is a
  double, it is the difference itself.
\<close>

theorem zoomOut_positive:
  "zoom (zoomOut_newCamera camera) =
     Some (if 0 < js_sub (js_or (zoom camera) 10) 1
           then js_sub (js_or (zoom camera) 10) 1 else 1)
   \<and> (\<forall>z'. zoom (zoomOut_newCamera camera) = Some z' \<longrightarrow> 0 < z')
   \<and> (zoom camera = Some z \<and> z \<noteq> 0 \<longrightarrow>
        zoom (zoomOut_newCamera camera) = Some (if 0 < js_sub z 1 then js_sub z 1 else 1))
   \<and> (zoom camera = Some z \<and> z \<noteq> 0 \<and> is_double (z - 1) \<longrightarrow>
        zoom (zoomOut_newCamera camera) = Some (if 0 < z - 1 then z - 1 else 1))
   \<and> (zoom camera = Some z \<and> \<not> (1 < z \<and> z < 2) \<longrightarrow>
        (\<exists>z'. zoom (zoomOut_newCamera camera) = Some z' \<and> 1 \<le> z'))
   \<and> (zoom camera = Some 1 \<longrightarrow> zoomOut_newCamera camera = camera)
   \<and> (mapRef s \<longrightarrow>
        zoomOut (Inr camera) s =
          s\<lparr>effects := effects s @ [GetCamera, AnimateCamera (zoomOut_newCamera camera) 300]\<rparr>)"
proof -
  let ?n = "js_sub (js_or (zoom camera) 10) 1"
  have stored: "zoom (zoomOut_newCamera camera) = Some (if 0 < ?n then ?n else 1)"
    by (simp add: zoomOut_newCamera_def Let_def)
  have positive: "0 < (if 0 < ?n then ?n else 1)"
    by simp
  have read: "zoom camera = Some z \<and> z \<noteq> 0 \<longrightarrow> ?n = js_sub z 1"
    by (simp add: js_or_def)
  have exact: "is_double (z - 1) \<longrightarrow> js_sub z 1 = z - 1"
    by (simp add: is_double_def js_sub_def)
  have floor: "zoom camera = Some z \<and> \<not> (1 < z \<and> z < 2) \<longrightarrow>
      1 \<le> (if 0 < ?n then ?n else 1)"
  proof (intro impI)
    assume a: "zoom camera = Some z \<and> \<not> (1 < z \<and> z < 2)"
    show "1 \<le> (if 0 < ?n then ?n else 1)"
    proof (cases "0 < ?n")
      case False
      then show ?thesis by simp
    next
      case True
      have "z = 0 \<or> 2 \<le> z"
      proof (rule ccontr)
        assume "\<not> (z = 0 \<or> 2 \<le> z)"
        with a have "z \<noteq> 0" and "z - 1 \<le> 0" by auto
        then have "?n \<le> 0"
          using a round_double_nonpos [of "z - 1"] by (simp add: js_or_def js_sub_def)
        with True show False by simp
      qed
      then have "1 \<le> ?n"
      proof
        assume "z = 0"
        with a show ?thesis by (simp add: js_or_def js_sub_def round_double_simps)
      next
        assume "2 \<le> z"
        then have "1 \<le> round_double (z - 1)" by (intro round_double_ge_1) simp
        with a \<open>2 \<le> z\<close> show ?thesis by (simp add: js_or_def js_sub_def)
      qed
      with True show ?thesis by simp
    qed
  qed
  have kept: "zoom camera = Some 1 \<longrightarrow> zoomOut_newCamera camera = camera"
    by (simp add: zoomOut_newCamera_def js_or_def js_sub_def round_double_simps)
  have animated: "mapRef s \<longrightarrow>
      zoomOut (Inr camera) s =
        s\<lparr>effects := effects s @ [GetCamera, AnimateCamera (zoomOut_newCamera camera) 300]\<rparr>"
    by (simp add: zoomOut_def)
  from positive read exact floor kept animated show ?thesis
    unfolding stored by auto
qed

theorem zoomOut_positive_witness:
  "zoom (sample_camera (Some 1)) = Some 1
   \<and> mapRef (run granted_run mounted)
   \<and> is_double (1 - 1)
   \<and> zoom (zoomOut_newCamera (sample_camera (Some 1))) = Some 1
   \<and> zoomOut_newCamera (sample_camera (Some 1)) = sample_camera (Some 1)
   \<and> effects (zoomOut (Inr (sample_camera (Some 1))) (run granted_run mounted)) =
       [RequestForegroundPermissionsAsync, GetCamera,
        AnimateCamera (sample_camera (Some 1)) 300]"
  using zoomOut_positive [of "sample_camera (Some 1)" 1 "run granted_run mounted"]
  by (simp add: sample_camera_def granted_state initial_def is_double_def round_double_simps)

text \<open>
  C7, as the specification has it: from every zoom \<open>z \<ge> 2\<close>, \<^verbatim>\<open>zoomIn\<close> followed by
  \<^verbatim>\<open>zoomOut\<close> returns to \<open>z\<close>. The sum \<open>z + 1\<close> is a sum of doubles and is rounded: from the
  double 15.1 \<^verbatim>\<open>zoomIn\<close> animates to the double 16.1, and \<^verbatim>\<open>zoomOut\<close>, reading that camera,
  animates to the next double above the one it started from (15.100000000000001).
\<close>

theorem zoomIn_zoomOut_rounding_counterexample:
  "zoom (sample_camera (Some zoom_15_1)) = Some zoom_15_1
   \<and> 2 \<le> zoom_15_1
   \<and> is_double zoom_15_1
   \<and> zoom (zoomIn_newCamera (sample_camera (Some zoom_15_1))) = Some zoom_16_1
   \<and> zoom (zoomOut_newCamera (zoomIn_newCamera (sample_camera (Some zoom_15_1)))) =
       Some zoom_15_1_above
   \<and> zoom_15_1_above \<noteq> zoom_15_1
   \<and> zoom_15_1_above - zoom_15_1 = 1 / 2 ^ 49
   \<and> effects (zoomOut (Inr (zoomIn_newCamera (sample_camera (Some zoom_15_1))))
               (zoomIn (Inr (sample_camera (Some zoom_15_1))) (run granted_run mounted))) =
       [RequestForegroundPermissionsAsync,
        GetCamera, AnimateCamera (sample_camera (Some zoom_16_1)) 300,
        GetCamera, AnimateCamera (sample_camera (Some zoom_15_1_above)) 300]"
proof -
  have nz: "zoom_15_1 \<noteq> 0" and ge: "2 \<le> zoom_15_1"
    by (simp_all add: zoom_15_1_def)
  have nz': "zoom_16_1 \<noteq> 0" and pos: "0 < zoom_15_1_above"
    by (simp_all add: zoom_16_1_def zoom_15_1_above_def)
  have ne: "zoom_15_1_above \<noteq> zoom_15_1" and gap: "zoom_15_1_above - zoom_15_1 = 1 / 2 ^ 49"
    by (simp_all add: zoom_15_1_def zoom_15_1_above_def)
  have up: "zoomIn_newCamera (sample_camera (Some zoom_15_1)) = sample_camera (Some zoom_16_1)"
    using nz by (simp add: zoomIn_newCamera_def js_or_def sample_camera_def zoom_15_1_up)
  have down: "zoomOut_newCamera (sample_camera (Some zoom_16_1)) =
      sample_camera (Some zoom_15_1_above)"
    using nz' pos
    by (simp add: zoomOut_newCamera_def js_or_def sample_camera_def zoom_16_1_down)
  have log: "effects (zoomOut (Inr (sample_camera (Some zoom_16_1)))
               (zoomIn (Inr (sample_camera (Some zoom_15_1))) (run granted_run mounted))) =
       [RequestForegroundPermissionsAsync,
        GetCamera, AnimateCamera (sample_camera (Some zoom_16_1)) 300,
        GetCamera, AnimateCamera (sample_camera (Some zoom_15_1_above)) 300]"
    by (simp add: zoomIn_def zoomOut_def up down granted_state initial_def)
  have cam: "zoom (sample_camera (Some zoom_15_1)) = Some zoom_15_1"
    "zoom (sample_camera (Some zoom_16_1)) = Some zoom_16_1"
    "zoom (sample_camera (Some zoom_15_1_above)) = Some zoom_15_1_above"
    by (simp_all add: sample_camera_def)
  have dbl: "is_double zoom_15_1"
    by (simp add: is_double_def zoom_15_1_double)
  show ?thesis
    unfolding up down cam using ge dbl ne gap log by simp
qed

text \<open>
  C7, amended. From a camera at a zoom \<open>z\<close> with \<open>z \<ge> 2\<close> such that \<open>z\<close> and \<open>z + 1\<close> are
  both doubles, \<^verbatim>\<open>zoomIn\<close> animates to zoom \<open>z + 1\<close>, and \<^verbatim>\<open>zoomOut\<close>, reading the camera
  the map was sent to, animates back to the camera it started from, so to zoom \<open>z\<close>. Every
  whole-number zoom from 2 up to \<^verbatim>\<open>2^53 - 2\<close> is such a \<open>z\<close>. At zoom 1, \<^verbatim>\<open>zoomOut\<close> alone
  keeps zoom 1.
\<close>

theorem zoomIn_zoomOut_round_trip:
  "(zoom camera = Some z \<and> 2 \<le> z \<and> is_double z \<and> is_double (z + 1) \<longrightarrow>
        zoom (zoomIn_newCamera camera) = Some (z + 1)
      \<and> zoom (zoomOut_newCamera (zoomIn_newCamera camera)) = Some z
      \<and> zoomOut_newCamera (zoomIn_newCamera camera) = camera
      \<and> (mapRef s \<longrightarrow>
           effects (zoomOut (Inr (zoomIn_newCamera camera)) (zoomIn (Inr camera) s)) =
             effects s @ [GetCamera, AnimateCamera (camera\<lparr>zoom := Some (z + 1)\<rparr>) 300,
                          GetCamera, AnimateCamera camera 300]))
   \<and> (2 \<le> n \<and> n + 1 < 2 ^ 53 \<longrightarrow> is_double (of_int n) \<and> is_double (of_int n + 1))
   \<and> (zoom camera = Some 1 \<longrightarrow> zoom (zoomOut_newCamera camera) = Some 1)"
proof -
  have trip: "zoom (zoomIn_newCamera camera) = Some (z + 1)
      \<and> zoom (zoomOut_newCamera (zoomIn_newCamera camera)) = Some z
      \<and> zoomOut_newCamera (zoomIn_newCamera camera) = camera
      \<and> (mapRef s \<longrightarrow>
           effects (zoomOut (Inr (zoomIn_newCamera camera)) (zoomIn (Inr camera) s)) =
             effects s @ [GetCamera, AnimateCamera (camera\<lparr>zoom := Some (z + 1)\<rparr>) 300,
                          GetCamera, AnimateCamera camera 300])"
    if a: "zoom camera = Some z \<and> 2 \<le> z \<and> is_double z \<and> is_double (z + 1)"
  proof -
    from a have up: "js_add (js_or (zoom camera) 10) 1 = z + 1"
      by (simp add: js_or_def js_add_def is_double_def)
    from a have down: "js_sub (z + 1) 1 = z"
      by (simp add: js_sub_def is_double_def)
    have there: "zoomIn_newCamera camera = camera\<lparr>zoom := Some (z + 1)\<rparr>"
      using up by (simp add: zoomIn_newCamera_def)
    have return: "zoomOut_newCamera (camera\<lparr>zoom := Some (z + 1)\<rparr>) = camera"
      using a down by (simp add: zoomOut_newCamera_def js_or_def)
    show ?thesis
      using a by (simp add: zoomIn_def zoomOut_def there return)
  qed
  have whole: "is_double (of_int n) \<and> is_double (of_int n + 1)"
    if b: "2 \<le> n \<and> n + 1 < 2 ^ 53"
    using b round_double_of_int [of n] round_double_of_int [of "n + 1"]
    by (simp add: is_double_def)
  have one: "zoom (zoomOut_newCamera camera) = Some 1" if "zoom camera = Some 1"
    using that by (simp add: zoomOut_newCamera_def js_or_def js_sub_def round_double_simps)
  from trip whole one show ?thesis
    by blast
qed

theorem zoomIn_zoomOut_round_trip_witness:
  "zoom (sample_camera (Some 2)) = Some 2
   \<and> (2 :: real) \<le> 2
   \<and> is_double 2 \<and> is_double (2 + 1)
   \<and> mapRef (run granted_run mounted)
   \<and> zoom (zoomIn_newCamera (sample_camera (Some 2))) = Some 3
   \<and> zoom (zoomOut_newCamera (zoomIn_newCamera (sample_camera (Some 2)))) = Some 2
   \<and> effects (zoomOut (Inr (zoomIn_newCamera (sample_camera (Some 2))))
               (zoomIn (Inr (sample_camera (Some 2))) (run granted_run mounted))) =
       [RequestForegroundPermissionsAsync,
        GetCamera, AnimateCamera (sample_camera (Some 3)) 300,
        GetCamera, AnimateCamera (sample_camera (Some 2)) 300]
   \<and> zoom (zoomOut_newCamera (sample_camera (Some 1))) = Some 1"
  using zoomIn_zoomOut_round_trip [of "sample_camera (Some 2)" 2 "run granted_run mounted" 2]
    zoomIn_zoomOut_round_trip [of "sample_camera (Some 1)" 1 "run granted_run mounted" 2]
  by (simp add: sample_camera_def granted_state initial_def is_double_def round_double_simps)

text \<open>
  C10. When the camera read has no zoom, or zoom 0, both functions take 10 as the current
  zoom: \<^verbatim>\<open>zoomIn\<close> animates to zoom 11 and \<^verbatim>\<open>zoomOut\<close> to zoom 9, the rest of the camera
  unchanged, over 300 ms.
\<close>

theorem zoom_default_ten:
  "zoom camera = None \<or> zoom camera = Some 0 \<Longrightarrow>
     zoomIn_newCamera camera = camera\<lparr>zoom := Some 11\<rparr>
   \<and> zoomOut_newCamera camera = camera\<lparr>zoom := Some 9\<rparr>
   \<and> (mapRef s \<longrightarrow>
        zoomIn (Inr camera) s =
          s\<lparr>effects := effects s @ [GetCamera, AnimateCamera (camera\<lparr>zoom := Some 11\<rparr>) 300]\<rparr>
      \<and> zoomOut (Inr camera) s =
          s\<lparr>effects := effects s @ [GetCamera, AnimateCamera (camera\<lparr>zoom := Some 9\<rparr>) 300]\<rparr>)"
  by (auto simp add: zoomOut_newCamera_def zoomIn_newCamera_def js_or_def js_add_def
        js_sub_def round_double_simps Let_def zoomIn_def zoomOut_def)

theorem zoom_default_ten_witness:
  "zoom (sample_camera None) = None
   \<and> zoom (sample_camera (Some 0)) = Some 0
   \<and> mapRef (run granted_run mounted)
   \<and> zoomIn_newCamera (sample_camera None) = sample_camera (Some 11)
   \<and> zoomOut_newCamera (sample_camera None) = sample_camera (Some 9)
   \<and> zoomIn_newCamera (sample_camera (Some 0)) = sample_camera (Some 11)
   \<and> zoomOut_newCamera (sample_camera (Some 0)) = sample_camera (Some 9)
   \<and> effects (zoomIn (Inr (sample_camera None)) (run granted_run mounted)) =
       [RequestForegroundPermissionsAsync, GetCamera,
        AnimateCamera (sample_camera (Some 11)) 300]
   \<and> effects (zoomOut (Inr (sample_camera (Some 0))) (run granted_run mounted)) =
       [RequestForegroundPermissionsAsync, GetCamera,
        AnimateCamera (sample_camera (Some 9)) 300]"
proof -
  have n: "zoom (sample_camera None) = None \<or> zoom (sample_camera None) = Some 0"
    by (simp add: sample_camera_def)
  have z: "zoom (sample_camera (Some 0)) = None \<or> zoom (sample_camera (Some 0)) = Some 0"
    by (simp add: sample_camera_def)
  show ?thesis
    using zoom_default_ten [OF n, of "run granted_run mounted"]
      zoom_default_ten [OF z, of "run granted_run mounted"]
    by (simp add: sample_camera_def granted_state initial_def)
qed

section \<open>Reset\<close>

text \<open>
  C6, as the specification has it: after \<^verbatim>\<open>resetToConstanta\<close> no acquisition is in flight
  and none has failed, whatever the state before. The function writes neither
  \<^verbatim>\<open>loading\<close> nor \<^verbatim>\<open>errorMsg\<close>: pressed after a failed second acquisition, "Reset"
  leaves the failure message standing, and called while an acquisition is pending it
  leaves \<^verbatim>\<open>loading\<close> set.
\<close>

theorem resetToConstanta_not_idle_counterexample:
  "location (run failed_run mounted) = Some sample_location
   \<and> run (failed_run @ [PressReset]) mounted = resetToConstanta (run failed_run mounted)
   \<and> location (run (failed_run @ [PressReset]) mounted) = None
   \<and> errorMsg (run (failed_run @ [PressReset]) mounted) =
       Some ''Could not get current location. Make sure GPS is enabled!''
   \<and> loading (resetToConstanta (run pending_run mounted))
   \<and> pendingPosition (resetToConstanta (run pending_run mounted)) = 1"
  by (simp add: run_append failed_state pending_state resetToConstanta_def initial_def)

text \<open>
  C6, amended. Whatever the state before, \<^verbatim>\<open>resetToConstanta\<close> clears the stored location,
  hides the details panel, sets the region to the Constanta region (spans 0.0922 and
  0.0421 degrees) and, the map view being attached, animates the map to it over 1000 ms.
  \<^verbatim>\<open>loading\<close>, \<^verbatim>\<open>errorMsg\<close> and a pending acquisition are left as they were.
\<close>

theorem resetToConstanta_result:
  "location (resetToConstanta s) = None
   \<and> showDetails (resetToConstanta s) = False
   \<and> \<not> detailsPanelVisible (resetToConstanta s)
   \<and> region (resetToConstanta s) = CONSTANTA_REGION
   \<and> latitude CONSTANTA_REGION = 44.159801
   \<and> longitude CONSTANTA_REGION = 28.634800
   \<and> latitudeDelta CONSTANTA_REGION = 0.0922
   \<and> longitudeDelta CONSTANTA_REGION = 0.0421
   \<and> effects (resetToConstanta s) =
       effects s @ (if mapRef s then [AnimateToRegion CONSTANTA_REGION 1000] else [])
   \<and> loading (resetToConstanta s) = loading s
   \<and> errorMsg (resetToConstanta s) = errorMsg s
   \<and> pendingPosition (resetToConstanta s) = pendingPosition s"
  by (simp add: resetToConstanta_def CONSTANTA_REGION_def CONSTANTA_COORDINATES_def
        detailsPanelVisible_def)

section \<open>The error message\<close>












section \<open>Details\<close>

text \<open>
  C9. With no stored location, showing the details does nothing: \<^verbatim>\<open>showLocationDetails\<close>
  returns at once, the "Details" button and the marker whose press sets \<^verbatim>\<open>showDetails\<close>
  are not rendered, and the panel is not visible. With a stored location,
  \<^verbatim>\<open>showLocationDetails\<close> raises the alert built from its coordinates and a press on the
  marker sets \<^verbatim>\<open>showDetails\<close>, which makes the panel visible.
\<close>

theorem showDetails_gated:
  "(location s = None \<longrightarrow>
        showLocationDetails s = s
      \<and> step PressDetails s = s
      \<and> step PressMarker s = s
      \<and> step PressCloseDetails s = s
      \<and> \<not> detailsPanelVisible s)
   \<and> (location s = Some l \<longrightarrow>
        showLocationDetails s = s\<lparr>effects := effects s @ [AlertLocationDetails (coords l)]\<rparr>
      \<and> step PressDetails s = showLocationDetails s
      \<and> step PressMarker s = s\<lparr>showDetails := True\<rparr>
      \<and> detailsPanelVisible (step PressMarker s))"
proof (cases "location s")
  case None
  then show ?thesis
    by (simp add: showLocationDetails_def detailsPanelVisible_def)
next
  case (Some stored)
  then show ?thesis
    by (simp add: showLocationDetails_def detailsPanelVisible_def)
qed

theorem showDetails_gated_witness:
  "location (run granted_run mounted) = None
   \<and> showLocationDetails (run granted_run mounted) = run granted_run mounted
   \<and> run (granted_run @ [PressMarker, PressDetails]) mounted = run granted_run mounted
   \<and> location (run failed_run mounted) = Some sample_location
   \<and> effects (showLocationDetails (run failed_run mounted)) =
       effects (run failed_run mounted) @ [AlertLocationDetails (coords sample_location)]
   \<and> showDetails (run (failed_run @ [PressMarker]) mounted)
   \<and> detailsPanelVisible (run (failed_run @ [PressMarker]) mounted)"
  using showDetails_gated [of "run granted_run mounted" sample_location]
    showDetails_gated [of "run failed_run mounted" sample_location]
  by (simp add: run_append failed_state granted_state initial_def)

end
